theory Spec2Isabelle
  imports Main
begin

section \<open>Go strings\<close>

text \<open>
  A Go string is a sequence of bytes; it is modelled as a \<open>string\<close> (a list of 8-bit
  characters). The functions of the packages \<open>strings\<close> and \<open>strconv\<close> that the
  builder calls are modelled on ASCII text, the strings that satisfy \<open>isASCII\<close>:
  \<open>ToUpper\<close> maps the letters a-z and leaves every other byte alone, and white space
  is the six ASCII white-space bytes (tab, line feed, vertical tab, form feed, carriage
  return, space). On ASCII text this is what Go does. Beyond ASCII Go does more:
  \<open>strings.ToUpper\<close> also maps letters such as U+017F and U+0131 to ASCII letters
  and can change the length in bytes, and \<open>strings.TrimSpace\<close> and
  \<open>strings.Fields\<close> also take U+0085, U+00A0 and other code points for white space.
  The model is not the code on such inputs: where a statement below depends on what
  \<open>ToUpper\<close>, \<open>TrimSpace\<close> or \<open>stringsFields\<close> do with an arbitrary string, it
  assumes that the string is ASCII.
\<close>

text \<open>A byte is ASCII when its top bit is clear.\<close>

definition isASCII :: "string \<Rightarrow> bool" where
  "isASCII s = list_all (\<lambda>c. \<not> digit7 c) s"

definition lowerLetters :: string where
  "lowerLetters = ''abcdefghijklmnopqrstuvwxyz''"

definition upperLetters :: string where
  "upperLetters = ''ABCDEFGHIJKLMNOPQRSTUVWXYZ''"

definition digitChars :: string where
  "digitChars = ''0123456789''"

definition toUpperChar :: "char \<Rightarrow> char" where
  "toUpperChar c = (case map_of (zip lowerLetters upperLetters) c of Some u \<Rightarrow> u | None \<Rightarrow> c)"

definition ToUpper :: "string \<Rightarrow> string" where
  "ToUpper s = map toUpperChar s"

definition isSpace :: "char \<Rightarrow> bool" where
  "isSpace c = (c \<in> set [CHR 0x09, CHR 0x0A, CHR 0x0B, CHR 0x0C, CHR 0x0D, CHR '' ''])"

definition TrimSpace :: "string \<Rightarrow> string" where
  "TrimSpace s = rev (dropWhile isSpace (rev (dropWhile isSpace s)))"

definition Trim :: "string \<Rightarrow> string \<Rightarrow> string" where
  "Trim s cutset =
     rev (dropWhile (\<lambda>c. c \<in> set cutset) (rev (dropWhile (\<lambda>c. c \<in> set cutset) s)))"

fun HasPrefix :: "string \<Rightarrow> string \<Rightarrow> bool" where
  "HasPrefix s [] = True"
| "HasPrefix [] (p # ps) = False"
| "HasPrefix (c # cs) (p # ps) = (c = p \<and> HasPrefix cs ps)"

text \<open>\<open>strings.Index\<close>: the position of the first occurrence, \<open>None\<close> for Go's -1.\<close>

fun Index :: "string \<Rightarrow> string \<Rightarrow> nat option" where
  "Index [] sub = (if sub = [] then Some 0 else None)"
| "Index (c # cs) sub =
     (if HasPrefix (c # cs) sub then Some 0 else map_option Suc (Index cs sub))"

definition Contains :: "string \<Rightarrow> string \<Rightarrow> bool" where
  "Contains s sub = (Index s sub \<noteq> None)"

text \<open>
  \<open>strings.Split s sep\<close> for a non-empty separator: the pieces between the
  non-overlapping occurrences of \<open>sep\<close>, found from the left. \<open>cur\<close> holds the piece
  being read, reversed. For the empty separator Go splits into single characters (of
  ASCII text); the builder never splits at the empty separator.
\<close>

function splitFrom :: "string \<Rightarrow> string \<Rightarrow> string \<Rightarrow> string list" where
  "splitFrom sep cur [] = [rev cur]"
| "splitFrom sep cur (c # cs) =
     (if sep \<noteq> [] \<and> HasPrefix (c # cs) sep
      then rev cur # splitFrom sep [] (drop (length sep) (c # cs))
      else splitFrom sep (c # cur) cs)"
  by pat_completeness auto
termination
  by (relation "measure (\<lambda>(sep, cur, s). length s)") auto

definition Split :: "string \<Rightarrow> string \<Rightarrow> string list" where
  "Split s sep = (if sep = [] then map (\<lambda>c. [c]) s else splitFrom sep [] s)"

text \<open>\<open>strings.SplitN s sep 2\<close>: split at the first occurrence only.\<close>

definition SplitN2 :: "string \<Rightarrow> string \<Rightarrow> string list" where
  "SplitN2 s sep =
     (case Index s sep of
        None \<Rightarrow> [s]
      | Some i \<Rightarrow> [take i s, drop (i + length sep) s])"

text \<open>\<open>strings.Fields\<close> (the name \<open>Fields\<close> is taken by the builder's field): the maximal
  runs of non-space characters.\<close>

fun fieldsFrom :: "string \<Rightarrow> string \<Rightarrow> string list" where
  "fieldsFrom cur [] = (if cur = [] then [] else [rev cur])"
| "fieldsFrom cur (c # cs) =
     (if isSpace c
      then (if cur = [] then fieldsFrom [] cs else rev cur # fieldsFrom [] cs)
      else fieldsFrom (c # cur) cs)"

definition stringsFields :: "string \<Rightarrow> string list" where
  "stringsFields s = fieldsFrom [] s"

fun Join :: "string list \<Rightarrow> string \<Rightarrow> string" where
  "Join [] sep = []"
| "Join [x] sep = x"
| "Join (x # y # ys) sep = x @ sep @ Join (y # ys) sep"

definition TrimPrefix :: "string \<Rightarrow> string \<Rightarrow> string" where
  "TrimPrefix s pre = (if HasPrefix s pre then drop (length pre) s else s)"

definition TrimSuffix :: "string \<Rightarrow> string \<Rightarrow> string" where
  "TrimSuffix s suf =
     (if HasPrefix (rev s) (rev suf) then take (length s - length suf) s else s)"

subsection \<open>Decimal integers\<close>

definition isDigit :: "char \<Rightarrow> bool" where
  "isDigit c = (c \<in> set digitChars)"

definition digitValue :: "char \<Rightarrow> int" where
  "digitValue c =
     (case map_of (zip digitChars [0, 1, 2, 3, 4, 5, 6, 7, 8, 9]) c of Some d \<Rightarrow> d | None \<Rightarrow> 0)"

definition decimalValue :: "string \<Rightarrow> int" where
  "decimalValue ds = foldl (\<lambda>n c. 10 * n + digitValue c) 0 ds"

text \<open>
  \<open>strconv.ParseInt s 10 64\<close>: an optional sign, then one or more decimal digits, and
  the value must fit a signed 64-bit integer; \<open>None\<close> stands for the returned error.
  With base 10 given explicitly no underscore and no base prefix is accepted.
  \<open>strconv.Atoi\<close> is the same function where Go's \<open>int\<close> has 64 bits, which is
  assumed here. A Go \<open>int\<close> or \<open>int64\<close> is modelled as an \<open>int\<close>; the builder
  only stores and compares these values, it never computes with them.
\<close>

definition ParseInt :: "string \<Rightarrow> int option" where
  "ParseInt s =
     (case s of
        [] \<Rightarrow> None
      | c # cs \<Rightarrow>
          (let neg = (c = CHR ''-'');
               ds = (if c = CHR ''+'' \<or> c = CHR ''-'' then cs else s)
           in if ds = [] \<or> \<not> list_all isDigit ds then None
              else (let un = decimalValue ds
                    in if \<not> neg \<and> un \<ge> 2 ^ 63 then None
                       else if neg \<and> un > 2 ^ 63 then None
                       else Some (if neg then - un else un))))"

definition Atoi :: "string \<Rightarrow> int option" where
  "Atoi s = ParseInt s"

section \<open>BSON values and the query builder\<close>

text \<open>
  The values the builder puts into a pipeline: \<open>bson.M\<close> (a map) and \<open>bson.D\<close> (an
  ordered document) are both lists of key-value pairs, a slice is \<open>BArr\<close>. A
  \<open>bson.M\<close> has each key once; apart from the group of \<open>NestedGroupBy\<close> the maps
  built below are empty or have one key, so the order of the keys plays no part. The type \<open>'f\<close> is that of the results of
  \<open>strconv.ParseFloat\<close> (a \<open>float64\<close>); the parser itself is a parameter \<open>pf\<close>
  of every function that calls it, with \<open>None\<close> for the returned error.
\<close>

datatype 'f bson =
    BInt int
  | BFloat 'f
  | BStr string
  | BDoc "(string \<times> 'f bson) list"
  | BArr "'f bson list"

type_synonym 'f bsonM = "(string \<times> 'f bson) list"
type_synonym 'f bsonD = "(string \<times> 'f bson) list"

datatype error =
    CollectionNotSpecified
  | InvalidExpressionFormat
  | UnsupportedOperator
  | InvalidLimitValue
  | IndexOutOfRange
  | UnsupportedAggregation
  | DriverError string

text \<open>The Go struct; a \<open>nil\<close> map is \<open>None\<close>.\<close>

record 'f QueryBuilder =
  Collection :: string
  Fields :: "string list"
  Group :: "'f bsonM option"
  Sort :: "'f bsonM option"
  HavingCond :: "'f bsonM option"
  LimitVal :: int
  OffsetVal :: int
  Pipeline :: "'f bsonD list"

definition NewQueryBuilder :: "'f QueryBuilder" where
  "NewQueryBuilder =
     \<lparr>Collection = [], Fields = [], Group = None, Sort = None, HavingCond = None,
      LimitVal = 0, OffsetVal = 0, Pipeline = []\<rparr>"

definition From :: "string \<Rightarrow> 'f QueryBuilder \<Rightarrow> 'f QueryBuilder" where
  "From collection qb = qb\<lparr>Collection := collection\<rparr>"

definition Limit :: "int \<Rightarrow> 'f QueryBuilder \<Rightarrow> 'f QueryBuilder" where
  "Limit limit qb = qb\<lparr>LimitVal := limit\<rparr>"

definition Offset :: "int \<Rightarrow> 'f QueryBuilder \<Rightarrow> 'f QueryBuilder" where
  "Offset offset qb = qb\<lparr>OffsetVal := offset\<rparr>"

text \<open>
  \<open>Execute\<close> up to the call of the driver: the check of the collection and the two
  deferred stages. \<open>compilePipeline\<close> is the builder as \<open>Execute\<close> leaves it, whose
  pipeline is the one handed to \<open>collection.Aggregate\<close>.
\<close>

definition compilePipeline :: "'f QueryBuilder \<Rightarrow> 'f QueryBuilder" where
  "compilePipeline qb =
     (let qb1 = (if OffsetVal qb > 0
                 then qb\<lparr>Pipeline := Pipeline qb @ [[(''$skip'', BInt (OffsetVal qb))]]\<rparr>
                 else qb);
          qb2 = (if LimitVal qb1 > 0
                 then qb1\<lparr>Pipeline := Pipeline qb1 @ [[(''$limit'', BInt (LimitVal qb1))]]\<rparr>
                 else qb1)
      in qb2)"

text \<open>
  The driver is the parameter \<open>aggregate\<close>: it gets the collection name and the
  pipeline and gives the decoded documents or the driver's error. \<open>Execute\<close> returns
  its result and the builder, which it has changed.
\<close>

definition Execute ::
  "(string \<Rightarrow> 'f bsonD list \<Rightarrow> error + 'r) \<Rightarrow> 'f QueryBuilder \<Rightarrow> (error + 'r) \<times> 'f QueryBuilder"
where
  "Execute aggregate qb =
     (if Collection qb = [] then (Inl CollectionNotSpecified, qb)
      else (let qb' = compilePipeline qb
            in (aggregate (Collection qb') (Pipeline qb'), qb')))"

definition AggregationLimit :: "int \<Rightarrow> 'f QueryBuilder \<Rightarrow> 'f QueryBuilder" where
  "AggregationLimit n qb =
     (if n > 0
      then qb\<lparr>LimitVal := n, Pipeline := Pipeline qb @ [[(''$limit'', BInt n)]]\<rparr>
      else qb)"

definition AggregationOffset :: "int \<Rightarrow> 'f QueryBuilder \<Rightarrow> 'f QueryBuilder" where
  "AggregationOffset n qb =
     (if n > 0
      then qb\<lparr>Pipeline := Pipeline qb @ [[(''$skip'', BInt n)]]\<rparr>
      else qb)"

definition GroupBy :: "string \<Rightarrow> 'f QueryBuilder \<Rightarrow> 'f QueryBuilder" where
  "GroupBy field qb =
     (let g = [(''_id'', BStr (''$'' @ field))]
      in qb\<lparr>Group := Some g, Pipeline := Pipeline qb @ [[(''$group'', BDoc g)]]\<rparr>)"

definition OrderBy :: "string \<Rightarrow> 'f QueryBuilder \<Rightarrow> 'f QueryBuilder" where
  "OrderBy order qb =
     (let parts = Split order '' '';
          sort = (if length parts = 2
                  then [(parts ! 0, BInt (if ToUpper (parts ! 1) = ''DESC'' then - 1 else 1))]
                  else [])
      in qb\<lparr>Sort := Some sort, Pipeline := Pipeline qb @ [[(''$sort'', BDoc sort)]]\<rparr>)"

section \<open>Operators and conditions\<close>

definition mapOperatorToMongo :: "string \<Rightarrow> string" where
  "mapOperatorToMongo operator =
     (if operator = ''='' then ''$eq''
      else if operator = ''>'' then ''$gt''
      else if operator = ''<'' then ''$lt''
      else if operator = ''>='' then ''$gte''
      else if operator = ''<='' then ''$lte''
      else if operator = ''!='' then ''$ne''
      else if operator = ''+'' then ''$add''
      else if operator = ''-'' then ''$subtract''
      else if operator = ''*'' then ''$multiply''
      else if operator = ''/'' then ''$divide''
      else '''')"

definition convertValue :: "(string \<Rightarrow> 'f option) \<Rightarrow> string \<Rightarrow> 'f bson" where
  "convertValue pf v =
     (case Atoi v of
        Some num \<Rightarrow> BInt num
      | None \<Rightarrow> (case pf v of Some num \<Rightarrow> BFloat num | None \<Rightarrow> BStr v))"

definition parseCondition :: "(string \<Rightarrow> 'f option) \<Rightarrow> string \<Rightarrow> 'f bsonM" where
  "parseCondition pf condition =
     (let parts = stringsFields condition
      in if length parts \<noteq> 3 then []
         else (let field = parts ! 0; operator = parts ! 1;
                   v = Trim (parts ! 2) [CHR 0x27];
                   mongoOperator = mapOperatorToMongo operator
               in [(field, BDoc [(mongoOperator, convertValue pf v)])]))"

definition parseConditions :: "(string \<Rightarrow> 'f option) \<Rightarrow> string \<Rightarrow> 'f bsonM" where
  "parseConditions pf conditions0 =
     (let conditions = TrimSpace conditions0
      in if Contains (ToUpper conditions) '' AND ''
         then [(''$and'',
                BArr (map (\<lambda>part. BDoc (parseCondition pf (TrimSpace part)))
                          (Split conditions '' AND '')))]
         else if Contains (ToUpper conditions) '' OR ''
         then [(''$or'',
                BArr (map (\<lambda>part. BDoc (parseCondition pf (TrimSpace part)))
                          (Split conditions '' OR '')))]
         else parseCondition pf conditions)"

section \<open>Expressions\<close>

text \<open>
  The regular expression of \<open>parseExpression\<close>,
  \<^verbatim>\<open>([\w\(\)\*]+)\s*([+\-*/><=]+)\s*([\w\(\)\*]+)\<close>,
  is a sequence of greedy repetitions of character classes. An item is a class with the
  least number of characters it must take. Go's \<open>regexp\<close> finds the leftmost match
  and, there, the one a backtracking search finds first: each item takes as many
  characters as it can and gives them back one at a time while the rest fails.
\<close>

definition isWordChar :: "char \<Rightarrow> bool" where
  "isWordChar c = (c \<in> set (lowerLetters @ upperLetters @ digitChars @ ''_''))"

definition isOperandChar :: "char \<Rightarrow> bool" where
  "isOperandChar c = (isWordChar c \<or> c \<in> set ''()*'')"

definition isOperatorChar :: "char \<Rightarrow> bool" where
  "isOperatorChar c = (c \<in> set ''+-*/><='')"

text \<open>The class \<^verbatim>\<open>\s\<close> of Go's \<open>regexp\<close>: tab, line feed, form feed, carriage return, space.\<close>

definition isRegexpSpace :: "char \<Rightarrow> bool" where
  "isRegexpSpace c = (c \<in> set [CHR 0x09, CHR 0x0A, CHR 0x0C, CHR 0x0D, CHR '' ''])"

type_synonym reItem = "(char \<Rightarrow> bool) \<times> nat"

text \<open>\<open>tryLengths f least k\<close>: the first success of \<open>f\<close> on \<open>k\<close>, \<open>k - 1\<close>, ..., \<open>least\<close>.\<close>

fun tryLengths :: "(nat \<Rightarrow> 'b option) \<Rightarrow> nat \<Rightarrow> nat \<Rightarrow> 'b option" where
  "tryLengths f least 0 = (if least = 0 then f 0 else None)"
| "tryLengths f least (Suc k) =
     (if Suc k < least then None
      else (case f (Suc k) of Some y \<Rightarrow> Some y | None \<Rightarrow> tryLengths f least k))"

text \<open>The match of the items at the start of \<open>s\<close>: the text each item took.\<close>

fun matchItems :: "reItem list \<Rightarrow> string \<Rightarrow> string list option" where
  "matchItems [] s = Some []"
| "matchItems ((cls, least) # items) s =
     tryLengths (\<lambda>k. map_option (\<lambda>gs. take k s # gs) (matchItems items (drop k s)))
       least (length (takeWhile cls s))"

fun findLeftmost :: "reItem list \<Rightarrow> string \<Rightarrow> string list option" where
  "findLeftmost re [] = matchItems re []"
| "findLeftmost re (c # cs) =
     (case matchItems re (c # cs) of Some gs \<Rightarrow> Some gs | None \<Rightarrow> findLeftmost re cs)"

definition expressionRegexp :: "reItem list" where
  "expressionRegexp =
     [(isOperandChar, 1), (isRegexpSpace, 0), (isOperatorChar, 1), (isRegexpSpace, 0),
      (isOperandChar, 1)]"

text \<open>
  \<open>re.FindStringSubmatch\<close>: the whole match and the three groups, or \<open>None\<close> for
  Go's \<open>nil\<close>.
\<close>

definition FindStringSubmatch :: "string \<Rightarrow> string list option" where
  "FindStringSubmatch s =
     (case findLeftmost expressionRegexp s of
        Some [g1, s1, g2, s2, g3] \<Rightarrow> Some [g1 @ s1 @ g2 @ s2 @ g3, g1, g2, g3]
      | _ \<Rightarrow> None)"

definition parseFieldOrValue :: "(string \<Rightarrow> 'f option) \<Rightarrow> string \<Rightarrow> 'f bson" where
  "parseFieldOrValue pf input0 =
     (let input = TrimSpace input0
      in case pf input of
           Some num \<Rightarrow> BFloat num
         | None \<Rightarrow>
             if HasPrefix (ToUpper input) ''SUM(''
             then (let field = TrimSuffix (TrimPrefix input ''SUM('') '')''
                   in BDoc [(''$sum'', BStr (''$'' @ field))])
             else if HasPrefix (ToUpper input) ''COUNT(''
             then BDoc [(''$sum'', BInt 1)]
             else BStr (''$'' @ input))"

definition parseExpression :: "(string \<Rightarrow> 'f option) \<Rightarrow> string \<Rightarrow> error + 'f bsonM" where
  "parseExpression pf expression0 =
     (let expression = TrimSpace expression0;
          matches = (case FindStringSubmatch expression of None \<Rightarrow> [] | Some ms \<Rightarrow> ms)
      in if length matches < 4 then Inl InvalidExpressionFormat
         else (let operand1 = matches ! 1; operator = matches ! 2; operand2 = matches ! 3;
                   mongoOperator = mapOperatorToMongo operator
               in if mongoOperator = [] then Inl UnsupportedOperator
                  else Inr [(''$expr'',
                             BDoc [(mongoOperator,
                                    BArr [parseFieldOrValue pf operand1,
                                          parseFieldOrValue pf operand2])])]))"

definition Match :: "(string \<Rightarrow> 'f option) \<Rightarrow> string \<Rightarrow> 'f QueryBuilder \<Rightarrow> 'f QueryBuilder" where
  "Match pf condition qb =
     (let filter = (case parseExpression pf condition of
                      Inr f \<Rightarrow> f
                    | Inl err \<Rightarrow> parseConditions pf condition)
      in qb\<lparr>Pipeline := Pipeline qb @ [[(''$match'', BDoc filter)]]\<rparr>)"

definition Having :: "(string \<Rightarrow> 'f option) \<Rightarrow> string \<Rightarrow> 'f QueryBuilder \<Rightarrow> 'f QueryBuilder" where
  "Having pf condition qb =
     (let filter = (case parseExpression pf condition of
                      Inr f \<Rightarrow> f
                    | Inl err \<Rightarrow> parseConditions pf condition)
      in qb\<lparr>Pipeline := Pipeline qb @ [[(''$match'', BDoc filter)]]\<rparr>)"

text \<open>
  \<open>parseAlias\<close> reads \<open>parts[1]\<close> without a check of the length; the run-time panic
  of Go is the error \<open>IndexOutOfRange\<close>.
\<close>

definition parseAlias :: "string \<Rightarrow> error + string" where
  "parseAlias field =
     (if Contains (ToUpper field) '' AS ''
      then (let parts = SplitN2 field '' AS ''
            in if 1 < length parts then Inr (TrimSpace (parts ! 1)) else Inl IndexOutOfRange)
      else Inr field)"

section \<open>The SQL parser\<close>

definition extractFields :: "string list \<Rightarrow> error + (string list \<times> string)" where
  "extractFields parts =
     (case parts of
        [] \<Rightarrow> Inl IndexOutOfRange
      | p0 # ps \<Rightarrow>
          if ToUpper p0 \<noteq> ''SELECT'' then Inr ([], Join parts '' '')
          else (let rest = Join ps '' ''
                in case Index (ToUpper rest) '' FROM '' of
                     Some fromIndex \<Rightarrow>
                       Inr (map TrimSpace (Split (take fromIndex rest) '',''),
                            drop (fromIndex + length '' FROM '') rest)
                   | None \<Rightarrow> Inr ([], rest)))"

definition extractCollection :: "string \<Rightarrow> error + (string \<times> string)" where
  "extractCollection query =
     (let parts = SplitN2 query '' ''
      in if 1 < length parts then Inr (parts ! 0, parts ! 1) else Inl IndexOutOfRange)"

fun firstKeyword :: "string list \<Rightarrow> string \<Rightarrow> nat option" where
  "firstKeyword [] query = None"
| "firstKeyword (keyword # keywords) query =
     (case Index (ToUpper query) keyword of
        Some keywordIndex \<Rightarrow> Some keywordIndex
      | None \<Rightarrow> firstKeyword keywords query)"

definition findNextKeyword :: "string \<Rightarrow> nat option" where
  "findNextKeyword query =
     firstKeyword [''WHERE'', ''GROUP BY'', ''HAVING'', ''ORDER BY'', ''LIMIT''] query"

text \<open>
  \<open>extractFields\<close> and \<open>extractClause\<close> find a keyword in the upper-cased text and
  cut the original text at that index. On ASCII text the two have the same length and
  the index means the same place in both; Go's \<open>strings.ToUpper\<close> can shorten other
  text, and the code then cuts at a shifted place.
\<close>

definition extractClause :: "string \<Rightarrow> string \<Rightarrow> string \<times> string" where
  "extractClause keyword query =
     (case Index (ToUpper query) keyword of
        None \<Rightarrow> ([], query)
      | Some keywordIndex \<Rightarrow>
          (let remaining = drop (keywordIndex + length keyword) query
           in case findNextKeyword remaining of
                None \<Rightarrow> (TrimSpace remaining, [])
              | Some nextKeywordIndex \<Rightarrow>
                  (TrimSpace (take nextKeywordIndex remaining),
                   TrimSpace (drop nextKeywordIndex remaining))))"

definition parseLimit :: "string \<Rightarrow> error + int" where
  "parseLimit limit =
     (case ParseInt limit of None \<Rightarrow> Inl InvalidLimitValue | Some parsedLimit \<Rightarrow> Inr parsedLimit)"

text \<open>
  One optional clause of \<open>ParseSQL\<close>: when the keyword occurs in the rest of the
  statement, its clause goes to the builder function and the rest is what follows it.
\<close>

definition parseClause ::
  "string \<Rightarrow> (string \<Rightarrow> 'f QueryBuilder \<Rightarrow> 'f QueryBuilder) \<Rightarrow> 'f QueryBuilder \<times> string
     \<Rightarrow> 'f QueryBuilder \<times> string"
where
  "parseClause keyword apply st =
     (case st of (qb, rest) \<Rightarrow>
        if Contains (ToUpper rest) keyword
        then (case extractClause keyword rest of
                (clause, remaining) \<Rightarrow> (apply (TrimSpace clause) qb, remaining))
        else (qb, rest))"

text \<open>
  The body of \<open>ParseSQL\<close> from its first line to the check for the LIMIT keyword:
  the values of its variables \<open>qb\<close> and \<open>rest\<close> when that check is reached, or
  the panic of \<open>extractCollection\<close>.
\<close>

definition parseBeforeLimit ::
  "(string \<Rightarrow> 'f option) \<Rightarrow> string \<Rightarrow> error + ('f QueryBuilder \<times> string)"
where
  "parseBeforeLimit pf query0 =
     (let query = TrimSpace query0; qb = NewQueryBuilder
      in case extractFields (Split query '' '') of
           Inl e \<Rightarrow> Inl e
         | Inr (selected, rest) \<Rightarrow>
             (case extractCollection rest of
                Inl e \<Rightarrow> Inl e
              | Inr (collection, rest) \<Rightarrow>
                  Inr (parseClause ''ORDER BY'' OrderBy
                       (parseClause ''HAVING'' (Having pf)
                        (parseClause ''GROUP BY'' GroupBy
                         (parseClause ''WHERE'' (Match pf)
                          (qb\<lparr>Fields := selected, Collection := collection\<rparr>, rest)))))))"

definition ParseSQL :: "(string \<Rightarrow> 'f option) \<Rightarrow> string \<Rightarrow> error + 'f QueryBuilder" where
  "ParseSQL pf query =
     (case parseBeforeLimit pf query of
        Inl e \<Rightarrow> Inl e
      | Inr (qb, rest) \<Rightarrow>
          if Contains (ToUpper rest) ''LIMIT''
          then (case extractClause ''LIMIT'' rest of
                  (limitClause, remaining) \<Rightarrow>
                    (case parseLimit (TrimSpace limitClause) of
                       Inl err \<Rightarrow> Inl err
                     | Inr limit \<Rightarrow> Inr (Limit limit qb)))
          else Inr qb)"

section \<open>Nested grouping\<close>

definition parseAggregation :: "string \<Rightarrow> error + 'f bsonM" where
  "parseAggregation field0 =
     (let field = TrimSpace field0
      in if HasPrefix (ToUpper field) ''SUM(''
         then (let innerField = TrimSuffix (TrimPrefix field ''SUM('') '')''
               in Inr [(''$sum'', BStr (''$'' @ TrimSpace innerField))])
         else if HasPrefix (ToUpper field) ''COUNT(''
         then Inr [(''$sum'', BInt 1)]
         else Inl UnsupportedAggregation)"

text \<open>The assignment \<open>m[k] = v\<close> to a Go map.\<close>

fun mapPut :: "string \<Rightarrow> 'v \<Rightarrow> (string \<times> 'v) list \<Rightarrow> (string \<times> 'v) list" where
  "mapPut k v [] = [(k, v)]"
| "mapPut k v ((k', v') # m) = (if k = k' then (k, v) # m else (k', v') # mapPut k v m)"

text \<open>
  The loop of \<open>NestedGroupBy\<close> over the aggregation specs: a panic of \<open>parseAlias\<close>
  ends the call, an unsupported aggregation is skipped.
\<close>

fun nestedAggregations :: "string list \<Rightarrow> 'f bsonM \<Rightarrow> error + 'f bsonM" where
  "nestedAggregations [] nestedGroup = Inr nestedGroup"
| "nestedAggregations (agg # aggs) nestedGroup =
     (case parseAlias agg of
        Inl e \<Rightarrow> Inl e
      | Inr alias \<Rightarrow>
          (case parseAggregation agg of
             Inl err \<Rightarrow> nestedAggregations aggs nestedGroup
           | Inr aggregation \<Rightarrow>
               nestedAggregations aggs (mapPut alias (BDoc aggregation) nestedGroup)))"

definition NestedGroupBy ::
  "string \<Rightarrow> string list \<Rightarrow> 'f QueryBuilder \<Rightarrow> error + 'f QueryBuilder"
where
  "NestedGroupBy field aggregations qb =
     (case nestedAggregations aggregations [(''_id'', BStr (''$'' @ field))] of
        Inl e \<Rightarrow> Inl e
      | Inr nestedGroup \<Rightarrow>
          Inr (qb\<lparr>Pipeline := Pipeline qb @ [[(''$group'', BDoc nestedGroup)]]\<rparr>))"

section \<open>Instances of the parameters for concrete runs\<close>

text \<open>
  A driver that hands back the pipeline it was given, so that a run of \<open>Execute\<close>
  shows the compiled stage sequence.
\<close>

definition returnPipeline :: "string \<Rightarrow> unit bsonD list \<Rightarrow> error + unit bsonD list" where
  "returnPipeline collection pipeline = Inr pipeline"

text \<open>
  The concrete runs below apply \<open>strconv.ParseFloat\<close> to no string at all or to
  one-letter words such as \<open>a\<close> and \<open>b\<close>, on which it returns an error;
  \<open>wordsOnly\<close> is the float parser on such inputs.
\<close>

definition wordsOnly :: "string \<Rightarrow> unit option" where
  "wordsOnly s = None"

section \<open>Evaluation and the string functions\<close>

lemmas string_evals = ToUpper_def toUpperChar_def lowerLetters_def upperLetters_def digitChars_def
  isSpace_def TrimSpace_def Trim_def Contains_def Split_def SplitN2_def stringsFields_def
  ParseInt_def Atoi_def isDigit_def digitValue_def decimalValue_def TrimPrefix_def TrimSuffix_def

lemmas regexp_evals = FindStringSubmatch_def expressionRegexp_def isWordChar_def isOperandChar_def
  isOperatorChar_def isRegexpSpace_def

lemmas parser_evals = parseBeforeLimit_def extractFields_def extractCollection_def parseClause_def
  extractClause_def findNextKeyword_def parseLimit_def NewQueryBuilder_def

text \<open>\<open>strings.Fields\<close> does not see the white space that \<open>strings.TrimSpace\<close> removes.\<close>

lemma fieldsFrom_spaces:
  "\<forall>x \<in> set ws. isSpace x \<Longrightarrow> fieldsFrom cur ws = (if cur = [] then [] else [rev cur])"
  by (induction ws arbitrary: cur) auto

lemma fieldsFrom_append_spaces:
  "\<forall>x \<in> set ws. isSpace x \<Longrightarrow> fieldsFrom cur (s @ ws) = fieldsFrom cur s"
  by (induction s arbitrary: cur) (auto simp: fieldsFrom_spaces)

lemma fieldsFrom_dropWhile: "fieldsFrom [] (dropWhile isSpace s) = fieldsFrom [] s"
  by (induction s) auto

lemma stringsFields_TrimSpace: "stringsFields (TrimSpace s) = stringsFields s"
proof -
  define t where "t = dropWhile isSpace s"
  have "rev (takeWhile isSpace (rev t) @ dropWhile isSpace (rev t))
      = rev (dropWhile isSpace (rev t)) @ rev (takeWhile isSpace (rev t))"
    by (rule rev_append)
  then have t: "t = rev (dropWhile isSpace (rev t)) @ rev (takeWhile isSpace (rev t))"
    by (simp only: takeWhile_dropWhile_id rev_rev_ident)
  have "\<forall>x \<in> set (rev (takeWhile isSpace (rev t))). isSpace x"
    by (auto dest: set_takeWhileD)
  then have "fieldsFrom [] (rev (dropWhile isSpace (rev t)) @ rev (takeWhile isSpace (rev t)))
      = fieldsFrom [] (rev (dropWhile isSpace (rev t)))"
    by (rule fieldsFrom_append_spaces)
  with t have "fieldsFrom [] t = fieldsFrom [] (rev (dropWhile isSpace (rev t)))"
    by simp
  then show ?thesis
    by (simp add: stringsFields_def TrimSpace_def t_def fieldsFrom_dropWhile)
qed

text \<open>Splitting at a one-character separator.\<close>

lemma splitFrom_no_separator:
  "c \<notin> set b \<Longrightarrow> splitFrom [c] cur b = [rev cur @ b]"
  by (induction b arbitrary: cur) auto

lemma splitFrom_first_separator:
  "c \<notin> set a \<Longrightarrow> splitFrom [c] cur (a @ c # rest) = (rev cur @ a) # splitFrom [c] [] rest"
  by (induction a arbitrary: cur) auto

lemma Split_two_tokens:
  assumes "CHR '' '' \<notin> set a" and "CHR '' '' \<notin> set b"
  shows "Split (a @ CHR '' '' # b) '' '' = [a, b]"
  using assms by (simp add: Split_def splitFrom_first_separator splitFrom_no_separator)

lemma length_splitFrom: "length (splitFrom [c] cur s) = Suc (count_list s c)"
  by (induction s arbitrary: cur) auto

lemma length_Split_space: "length (Split s '' '') = Suc (count_list s (CHR '' ''))"
  by (simp add: Split_def length_splitFrom)

text \<open>An occurrence of a substring stays one under a map of the characters.\<close>

lemma HasPrefix_map: "HasPrefix s p \<Longrightarrow> HasPrefix (map f s) (map f p)"
  by (induction s p rule: HasPrefix.induct) auto

lemma Index_map: "Index s p \<noteq> None \<Longrightarrow> Index (map f s) (map f p) \<noteq> None"
proof (induction s)
  case Nil
  then show ?case by (simp split: if_splits)
next
  case (Cons c cs)
  show ?case
  proof (cases "HasPrefix (c # cs) p")
    case True
    then have "HasPrefix (map f (c # cs)) (map f p)" by (rule HasPrefix_map)
    then show ?thesis by simp
  next
    case False
    with Cons.prems have "Index cs p \<noteq> None" by auto
    then have "Index (map f cs) (map f p) \<noteq> None" by (rule Cons.IH)
    then show ?thesis by auto
  qed
qed

text \<open>Facts about the string functions that the parse of a whole statement needs.\<close>

lemma ToUpper_append: "ToUpper (a @ b) = ToUpper a @ ToUpper b"
  by (simp add: ToUpper_def)

lemma toUpperChar_space: "isSpace (toUpperChar c) \<longleftrightarrow> isSpace c"
  by (auto simp: toUpperChar_def isSpace_def lowerLetters_def upperLetters_def
      split: option.splits if_splits)

lemma ToUpper_no_space: "list_all (\<lambda>c. \<not> isSpace c) (ToUpper v) \<longleftrightarrow> list_all (\<lambda>c. \<not> isSpace c) v"
  by (induction v) (simp_all add: ToUpper_def toUpperChar_space)

lemma HasPrefix_set: "HasPrefix s p \<Longrightarrow> set p \<subseteq> set s"
  by (induction s p rule: HasPrefix.induct) auto

lemma Index_no_char: "c \<in> set p \<Longrightarrow> c \<notin> set s \<Longrightarrow> Index s p = None"
proof (induction s)
  case Nil
  then show ?case by auto
next
  case (Cons x s)
  then have "\<not> HasPrefix (x # s) p"
    using HasPrefix_set by blast
  with Cons show ?case by simp
qed

lemma Index_first:
  "c \<notin> set a \<Longrightarrow> HasPrefix (c # rest) (c # p) \<Longrightarrow> Index (a @ c # rest) (c # p) = Some (length a)"
  by (induction a) auto

lemma splitFrom_not_Nil: "splitFrom sep cur s \<noteq> []"
  by (induction sep cur s rule: splitFrom.induct) auto

lemma Join_Cons: "ys \<noteq> [] \<Longrightarrow> Join (x # ys) sep = x @ sep @ Join ys sep"
  by (cases ys) auto

lemma Join_splitFrom: "Join (splitFrom [c] cur s) [c] = rev cur @ s"
  by (induction s arbitrary: cur) (auto simp: Join_Cons splitFrom_not_Nil)


lemma toUpperChar_eq_space: "toUpperChar c = CHR '' '' \<longleftrightarrow> c = CHR '' ''"
  by (auto simp: toUpperChar_def lowerLetters_def upperLetters_def split: option.splits if_splits)

lemma ToUpper_space_free: "CHR '' '' \<notin> set s \<Longrightarrow> CHR '' '' \<notin> set (ToUpper s)"
  by (auto simp: ToUpper_def) (metis toUpperChar_eq_space)

lemma ToUpper_space: "ToUpper (CHR '' '' # s) = CHR '' '' # ToUpper s"
  by (simp add: ToUpper_def toUpperChar_def lowerLetters_def upperLetters_def)

lemma TrimSpace_id:
  assumes "s \<noteq> []" and "\<not> isSpace (hd s)" and "\<not> isSpace (last s)"
  shows "TrimSpace s = s"
proof -
  have front: "dropWhile isSpace s = s"
    using assms by (cases s) auto
  have rear: "dropWhile isSpace (rev s) = rev s"
    using assms by (simp add: dropWhile_eq_self_iff hd_rev)
  show ?thesis
    by (simp add: TrimSpace_def front rear)
qed

lemma no_space_ends:
  assumes "v \<noteq> []" and "list_all (\<lambda>c. \<not> isSpace c) v"
  shows "\<not> isSpace (hd v) \<and> \<not> isSpace (last v)"
  using assms by (auto simp: list_all_iff)

section \<open>Finalization: deferred offset and limit\<close>

text \<open>
  C1. \<open>Offset\<close> and \<open>Limit\<close> only record their value: neither appends a stage,
  and the two calls commute. When both have been called with positive values, the
  pipeline that \<open>Execute\<close> compiles is the builder's pipeline followed by the stage
  \<open>$skip off\<close> and then the stage \<open>$limit lim\<close>; it is the pipeline handed to the
  driver when the collection is set, and without a collection \<open>Execute\<close> fails before
  it compiles anything.
\<close>

theorem offset_limit_finalization:
  assumes "0 < off" and "0 < lim"
  shows "Pipeline (Offset off qb) = Pipeline qb
    \<and> Pipeline (Limit lim qb) = Pipeline qb
    \<and> Pipeline (Limit lim (Offset off qb)) = Pipeline qb
    \<and> Offset off (Limit lim qb) = Limit lim (Offset off qb)
    \<and> Pipeline (compilePipeline (Limit lim (Offset off qb)))
        = Pipeline qb @ [[(''$skip'', BInt off)], [(''$limit'', BInt lim)]]
    \<and> (Collection qb \<noteq> [] \<longrightarrow>
         Execute aggregate (Limit lim (Offset off qb))
          = (aggregate (Collection qb)
               (Pipeline qb @ [[(''$skip'', BInt off)], [(''$limit'', BInt lim)]]),
             compilePipeline (Limit lim (Offset off qb))))
    \<and> (Collection qb = [] \<longrightarrow>
         Execute aggregate (Limit lim (Offset off qb))
          = (Inl CollectionNotSpecified, Limit lim (Offset off qb)))"
  using assms by (simp add: Offset_def Limit_def Execute_def compilePipeline_def Let_def)

theorem offset_limit_finalization_witness:
  "(0::int) < 20 \<and> (0::int) < 10 \<and> Collection (From ''orders'' NewQueryBuilder) \<noteq> []
   \<and> Execute returnPipeline (Offset 20 (Limit 10 (From ''orders'' NewQueryBuilder)))
      = Execute returnPipeline (Limit 10 (Offset 20 (From ''orders'' NewQueryBuilder)))
   \<and> fst (Execute returnPipeline (Limit 10 (Offset 20 (From ''orders'' NewQueryBuilder))))
      = Inr [[(''$skip'', BInt 20)], [(''$limit'', BInt 10)]]
   \<and> Collection (NewQueryBuilder :: unit QueryBuilder) = []
   \<and> fst (Execute returnPipeline (Limit 10 (Offset 20 NewQueryBuilder)))
      = Inl CollectionNotSpecified"
  using offset_limit_finalization [of 20 10 "From ''orders'' NewQueryBuilder" returnPipeline]
    offset_limit_finalization [of 20 10 NewQueryBuilder returnPipeline]
  by (simp add: From_def NewQueryBuilder_def returnPipeline_def Limit_def Offset_def)

section \<open>The condition parser\<close>

text \<open>
  The example of the specification: two comparisons joined by an upper-case \<open>AND\<close>.
\<close>

lemma parseConditions_and_example:
  "parseConditions pf ''price > 100 AND stock > 50''
     = [(''$and'', BArr [BDoc [(''price'', BDoc [(''$gt'', BInt 100)])],
                         BDoc [(''stock'', BDoc [(''$gt'', BInt 50)])]])]"
  by (simp add: parseConditions_def parseCondition_def mapOperatorToMongo_def convertValue_def
      string_evals)

text \<open>
  With both connectives in upper case only \<open>AND\<close> is honoured: the text around
  \<open>OR\<close> stays one part, which has seven tokens and so is the empty predicate.
\<close>

lemma parseConditions_and_before_or:
  "parseConditions pf ''a = 1 OR b = 2 AND c = 3''
     = [(''$and'', BArr [BDoc [], BDoc [(''c'', BDoc [(''$eq'', BInt 3)])]])]"
  by (simp add: parseConditions_def parseCondition_def mapOperatorToMongo_def convertValue_def
      string_evals)

lemma parseConditions_or_example:
  "parseConditions pf ''a = 1 OR b = 2''
     = [(''$or'', BArr [BDoc [(''a'', BDoc [(''$eq'', BInt 1)])],
                        BDoc [(''b'', BDoc [(''$eq'', BInt 2)])]])]"
  by (simp add: parseConditions_def parseCondition_def mapOperatorToMongo_def convertValue_def
      string_evals)

text \<open>
  C2. The connective is detected in the upper-cased condition, but the condition is
  split on the upper-case separator in its original spelling. A lower-case \<open>and\<close>
  is therefore detected and not split on: the whole condition is the only part, it has
  seven tokens, and the result is an \<open>$and\<close> over one empty predicate instead of the
  two comparisons.
\<close>

theorem parseConditions_lowercase_and:
  "Contains (ToUpper (TrimSpace ''price > 100 and stock > 50'')) '' AND ''
   \<and> Split (TrimSpace ''price > 100 and stock > 50'') '' AND '' = [''price > 100 and stock > 50'']
   \<and> parseConditions pf ''price > 100 and stock > 50'' = [(''$and'', BArr [BDoc []])]"
  by (simp add: parseConditions_def parseCondition_def string_evals)

text \<open>
  C3. A condition of three tokens whose middle token is no operator of the mapper
  gives a comparison under the empty operator tag: \<open>parseCondition\<close> does not look at
  what \<open>mapOperatorToMongo\<close> returned, whereas \<open>parseExpression\<close> rejects the empty tag.
\<close>

theorem parseCondition_unmapped_operator:
  "length (stringsFields ''price LIKE 100'') = 3
   \<and> mapOperatorToMongo ''LIKE'' = []
   \<and> parseCondition pf ''price LIKE 100'' = [(''price'', BDoc [([], BInt 100)])]"
  by (simp add: parseCondition_def mapOperatorToMongo_def convertValue_def string_evals)

text \<open>
  The same condition through \<open>Match\<close>: the expression parser finds no operator
  character, the condition parser takes over, and the stage carries the empty tag.
\<close>

lemma Match_unmapped_operator:
  "Pipeline (Match pf ''price LIKE 100'' qb)
     = Pipeline qb @ [[(''$match'', BDoc [(''price'', BDoc [([], BInt 100)])])]]"
  by (simp add: Match_def parseExpression_def parseConditions_def parseCondition_def
      mapOperatorToMongo_def convertValue_def regexp_evals string_evals)

section \<open>Expressions without an operator character\<close>

lemma FindStringSubmatch_length: "FindStringSubmatch s = Some ms \<Longrightarrow> length ms = 4"
  by (auto simp: FindStringSubmatch_def split: option.splits list.splits)

lemma tryLengths_None: "(\<And>k. f k = None) \<Longrightarrow> tryLengths f least n = None"
  by (induction n) auto

lemma matchItems_needs_char:
  "\<forall>ch \<in> set t. \<not> cls ch \<Longrightarrow> matchItems ((cls, Suc 0) # items) t = None"
  by (cases t) auto

lemma matchItems_skip:
  assumes "\<And>k. matchItems items (drop k t) = None"
  shows "matchItems ((cls, least) # items) t = None"
  using assms by (simp add: tryLengths_None)

lemma matchItems_no_operator:
  assumes "\<forall>ch \<in> set t. \<not> isOperatorChar ch"
  shows "matchItems expressionRegexp t = None"
proof -
  have drops: "\<forall>ch \<in> set (drop k (drop j t)). \<not> isOperatorChar ch" for j k
    using assms by (auto dest!: in_set_dropD)
  have operator: "matchItems ((isOperatorChar, Suc 0) # items) (drop k (drop j t)) = None"
    for items j k
    by (rule matchItems_needs_char) (rule drops)
  have spaces: "matchItems ((isRegexpSpace, 0) # (isOperatorChar, Suc 0) # items) (drop j t) = None"
    for items j
    by (rule matchItems_skip) (rule operator)
  show ?thesis
    unfolding expressionRegexp_def One_nat_def by (rule matchItems_skip) (rule spaces)
qed

lemma findLeftmost_no_operator:
  "\<forall>ch \<in> set t. \<not> isOperatorChar ch \<Longrightarrow> findLeftmost expressionRegexp t = None"
  by (induction t) (simp_all add: matchItems_no_operator)

lemma parseExpression_no_operator:
  assumes "isASCII c" and "\<forall>ch \<in> set c. \<not> isOperatorChar ch"
  shows "parseExpression pf c = Inl InvalidExpressionFormat"
proof -
  have "set (TrimSpace c) \<subseteq> set c"
    by (auto simp: TrimSpace_def dest!: set_dropWhileD)
  with assms(2) have "\<forall>ch \<in> set (TrimSpace c). \<not> isOperatorChar ch" by blast
  then have "FindStringSubmatch (TrimSpace c) = None"
    by (simp add: FindStringSubmatch_def findLeftmost_no_operator)
  then show ?thesis by (simp add: parseExpression_def)
qed

text \<open>What \<open>parseExpression\<close> returns when it accepts: a computed comparison.\<close>

lemma parseExpression_Inr_shape:
  assumes "parseExpression pf c = Inr f"
  shows "\<exists>tag left right. tag \<noteq> [] \<and> f = [(''$expr'', BDoc [(tag, BArr [left, right])])]"
  using assms by (auto simp: parseExpression_def Let_def split: if_splits)

section \<open>Malformed conditions\<close>

text \<open>
  C4, as amended. Take an ASCII condition that does not split into exactly three
  tokens. \<open>parseCondition\<close> returns the empty predicate for it. When the trimmed,
  upper-cased condition contains neither \<open>AND\<close> nor \<open>OR\<close> between spaces,
  \<open>parseConditions\<close> returns the empty filter too. \<open>Match\<close> and \<open>Having\<close>
  each append exactly one \<open>$match\<close> stage and cannot fail. When the expression
  parser accepts the condition the stage holds its filter, a computed comparison
  \<open>$expr\<close> of a non-empty operator tag over two operands. When the expression parser
  rejects the condition (as it does whenever the condition has no operator character)
  and the condition has neither connective, the stage is empty.
\<close>

theorem malformed_condition_is_empty:
  assumes "isASCII c" and "length (stringsFields c) \<noteq> 3"
  shows "parseCondition pf c = []
    \<and> (\<not> Contains (ToUpper (TrimSpace c)) '' AND '' \<and> \<not> Contains (ToUpper (TrimSpace c)) '' OR ''
        \<longrightarrow> parseConditions pf c = [])
    \<and> (\<exists>filter. Pipeline (Match pf c qb) = Pipeline qb @ [[(''$match'', BDoc filter)]]
              \<and> Pipeline (Having pf c qb) = Pipeline qb @ [[(''$match'', BDoc filter)]])
    \<and> (\<forall>f. parseExpression pf c = Inr f \<longrightarrow>
          Pipeline (Match pf c qb) = Pipeline qb @ [[(''$match'', BDoc f)]]
        \<and> Pipeline (Having pf c qb) = Pipeline qb @ [[(''$match'', BDoc f)]]
        \<and> (\<exists>tag left right. tag \<noteq> [] \<and> f = [(''$expr'', BDoc [(tag, BArr [left, right])])]))
    \<and> (((\<exists>e. parseExpression pf c = Inl e) \<or> (\<forall>ch \<in> set c. \<not> isOperatorChar ch))
         \<and> \<not> Contains (ToUpper (TrimSpace c)) '' AND ''
         \<and> \<not> Contains (ToUpper (TrimSpace c)) '' OR ''
        \<longrightarrow> Pipeline (Match pf c qb) = Pipeline qb @ [[(''$match'', BDoc [])]]
          \<and> Pipeline (Having pf c qb) = Pipeline qb @ [[(''$match'', BDoc [])]])"
proof -
  have pc: "parseCondition pf c = []"
    using assms(2) by (simp add: parseCondition_def)
  have trimmed: "parseCondition pf (TrimSpace c) = []"
    using assms(2) by (simp add: parseCondition_def stringsFields_TrimSpace)
  have conds: "parseConditions pf c = []"
    if "\<not> Contains (ToUpper (TrimSpace c)) '' AND ''" "\<not> Contains (ToUpper (TrimSpace c)) '' OR ''"
    using that trimmed by (simp add: parseConditions_def)
  have one: "\<exists>filter. Pipeline (Match pf c qb) = Pipeline qb @ [[(''$match'', BDoc filter)]]
              \<and> Pipeline (Having pf c qb) = Pipeline qb @ [[(''$match'', BDoc filter)]]"
    by (simp add: Match_def Having_def)
  have accepted: "Pipeline (Match pf c qb) = Pipeline qb @ [[(''$match'', BDoc f)]]
        \<and> Pipeline (Having pf c qb) = Pipeline qb @ [[(''$match'', BDoc f)]]
        \<and> (\<exists>tag left right. tag \<noteq> [] \<and> f = [(''$expr'', BDoc [(tag, BArr [left, right])])])"
    if "parseExpression pf c = Inr f" for f
    using that parseExpression_Inr_shape [OF that] by (simp add: Match_def Having_def)
  have fails: "\<exists>e. parseExpression pf c = Inl e"
    if "(\<exists>e. parseExpression pf c = Inl e) \<or> (\<forall>ch \<in> set c. \<not> isOperatorChar ch)"
    using that parseExpression_no_operator [OF assms(1), of pf] by blast
  have stage: "Pipeline (Match pf c qb) = Pipeline qb @ [[(''$match'', BDoc [])]]
      \<and> Pipeline (Having pf c qb) = Pipeline qb @ [[(''$match'', BDoc [])]]"
    if "\<exists>e. parseExpression pf c = Inl e" "parseConditions pf c = []"
    using that by (auto simp: Match_def Having_def)
  from pc one conds accepted fails stage show ?thesis by blast
qed

theorem malformed_condition_is_empty_witness:
  "isASCII ''price''
   \<and> length (stringsFields ''price'') \<noteq> 3
   \<and> parseCondition wordsOnly ''price'' = []
   \<and> \<not> Contains (ToUpper (TrimSpace ''price'')) '' AND ''
   \<and> \<not> Contains (ToUpper (TrimSpace ''price'')) '' OR ''
   \<and> parseConditions wordsOnly ''price'' = []
   \<and> parseExpression wordsOnly ''price'' = Inl InvalidExpressionFormat
   \<and> Pipeline (Match wordsOnly ''price'' NewQueryBuilder) = [[(''$match'', BDoc [])]]
   \<and> Pipeline (Having wordsOnly ''price'' NewQueryBuilder) = [[(''$match'', BDoc [])]]
   \<and> isASCII ''a>b''
   \<and> length (stringsFields ''a>b'') \<noteq> 3
   \<and> parseExpression wordsOnly ''a>b''
       = Inr [(''$expr'', BDoc [(''$gt'', BArr [BStr ''$a'', BStr ''$b''])])]
   \<and> Pipeline (Match wordsOnly ''a>b'' NewQueryBuilder)
       = [[(''$match'', BDoc [(''$expr'', BDoc [(''$gt'', BArr [BStr ''$a'', BStr ''$b''])])])]]"
proof -
  have asc: "isASCII ''price''" "isASCII ''a>b''"
    by (simp_all add: isASCII_def)
  have h: "length (stringsFields ''price'') \<noteq> 3" "length (stringsFields ''a>b'') \<noteq> 3"
    by (simp_all add: string_evals)
  have e: "parseExpression wordsOnly ''price'' = Inl InvalidExpressionFormat"
    by (simp add: parseExpression_def regexp_evals string_evals)
  have a: "parseExpression wordsOnly ''a>b''
      = Inr [(''$expr'', BDoc [(''$gt'', BArr [BStr ''$a'', BStr ''$b''])])]"
    by (simp add: parseExpression_def parseFieldOrValue_def wordsOnly_def mapOperatorToMongo_def
        regexp_evals string_evals)
  have na: "\<not> Contains (ToUpper (TrimSpace ''price'')) '' AND ''"
    and no: "\<not> Contains (ToUpper (TrimSpace ''price'')) '' OR ''"
    by (simp_all add: string_evals)
  from malformed_condition_is_empty [OF asc(1) h(1), of wordsOnly NewQueryBuilder]
    malformed_condition_is_empty [OF asc(2) h(2), of wordsOnly NewQueryBuilder]
    asc h e a na no
  show ?thesis by (simp add: NewQueryBuilder_def)
qed

text \<open>
  The claim as written fails on a condition of one token that the expression parser
  accepts: \<open>a>b\<close> has no white space, so it is not three tokens, and \<open>Match\<close>
  compiles it to a computed comparison, not to an empty stage.
\<close>

theorem malformed_condition_expression_counterexample:
  "length (stringsFields ''a>b'') \<noteq> 3
   \<and> Pipeline (Match wordsOnly ''a>b'' NewQueryBuilder)
       = [[(''$match'', BDoc [(''$expr'', BDoc [(''$gt'', BArr [BStr ''$a'', BStr ''$b''])])])]]
   \<and> Pipeline (Match wordsOnly ''a>b'' NewQueryBuilder) \<noteq> [[(''$match'', BDoc [])]]"
  by (simp add: Match_def parseExpression_def parseFieldOrValue_def wordsOnly_def
      mapOperatorToMongo_def NewQueryBuilder_def regexp_evals string_evals)

section \<open>Match and Having\<close>

text \<open>
  C5. \<open>Match\<close> and \<open>Having\<close> try \<open>parseExpression\<close> first. When it succeeds its
  filter is used; when, and only when, it signals a failure the filter is that of
  \<open>parseConditions\<close>. Either way exactly one \<open>$match\<close> stage is appended to the
  pipeline, nothing else of the builder changes, and the call returns the builder: there
  is no error result, and every index the two parsers read is guarded by a length check.
\<close>

theorem match_having_fallback:
  "(\<forall>f. parseExpression pf c = Inr f \<longrightarrow>
        Match pf c qb = qb\<lparr>Pipeline := Pipeline qb @ [[(''$match'', BDoc f)]]\<rparr>
      \<and> Having pf c qb = qb\<lparr>Pipeline := Pipeline qb @ [[(''$match'', BDoc f)]]\<rparr>)
   \<and> (\<forall>e. parseExpression pf c = Inl e \<longrightarrow>
        Match pf c qb = qb\<lparr>Pipeline := Pipeline qb @ [[(''$match'', BDoc (parseConditions pf c))]]\<rparr>
      \<and> Having pf c qb = qb\<lparr>Pipeline := Pipeline qb @ [[(''$match'', BDoc (parseConditions pf c))]]\<rparr>)
   \<and> (\<exists>filter. Pipeline (Match pf c qb) = Pipeline qb @ [[(''$match'', BDoc filter)]]
              \<and> Pipeline (Having pf c qb) = Pipeline qb @ [[(''$match'', BDoc filter)]])"
  by (cases "parseExpression pf c") (simp_all add: Match_def Having_def)

theorem match_having_fallback_witness:
  "parseExpression wordsOnly ''a>b'' = Inr [(''$expr'', BDoc [(''$gt'', BArr [BStr ''$a'', BStr ''$b''])])]
   \<and> Match wordsOnly ''a>b'' NewQueryBuilder
       = NewQueryBuilder\<lparr>Pipeline :=
           [[(''$match'', BDoc [(''$expr'', BDoc [(''$gt'', BArr [BStr ''$a'', BStr ''$b''])])])]]\<rparr>
   \<and> parseExpression wordsOnly ''price != b'' = Inl InvalidExpressionFormat
   \<and> Having wordsOnly ''price != b'' NewQueryBuilder
       = NewQueryBuilder\<lparr>Pipeline :=
           [[(''$match'', BDoc [(''price'', BDoc [(''$ne'', BStr ''b'')])])]]\<rparr>"
proof -
  have a: "parseExpression wordsOnly ''a>b''
      = Inr [(''$expr'', BDoc [(''$gt'', BArr [BStr ''$a'', BStr ''$b''])])]"
    by (simp add: parseExpression_def parseFieldOrValue_def wordsOnly_def mapOperatorToMongo_def
        regexp_evals string_evals)
  have b: "parseExpression wordsOnly ''price != b'' = Inl InvalidExpressionFormat"
    by (simp add: parseExpression_def regexp_evals string_evals)
  have c: "parseConditions wordsOnly ''price != b'' = [(''price'', BDoc [(''$ne'', BStr ''b'')])]"
    by (simp add: parseConditions_def parseCondition_def convertValue_def wordsOnly_def
        mapOperatorToMongo_def string_evals)
  from match_having_fallback [of wordsOnly "''a>b''" NewQueryBuilder]
    match_having_fallback [of wordsOnly "''price != b''" NewQueryBuilder] a b c
  show ?thesis by (simp add: NewQueryBuilder_def)
qed

section \<open>OrderBy\<close>

text \<open>
  C6, as amended. \<open>OrderBy\<close> splits its argument at each single space. When that
  gives exactly two tokens (the argument is a field, one space and a direction, neither
  holding a space) and the direction is ASCII, the sort document maps the field to
  \<open>-1\<close> if the direction is \<open>DESC\<close> in any letter case and to \<open>+1\<close>
  otherwise. For every other argument (no space, or more than one) the sort document is
  empty: it has no field and no direction. A \<open>$sort\<close> stage with the sort document
  is appended on every call.
\<close>

theorem orderBy_direction:
  "(CHR '' '' \<notin> set field \<and> CHR '' '' \<notin> set dir \<and> isASCII dir \<longrightarrow>
      OrderBy (field @ '' '' @ dir) qb
        = qb\<lparr>Sort := Some [(field, BInt (if ToUpper dir = ''DESC'' then - 1 else 1))],
             Pipeline := Pipeline qb
               @ [[(''$sort'', BDoc [(field, BInt (if ToUpper dir = ''DESC'' then - 1 else 1))])]]\<rparr>)
   \<and> (count_list order (CHR '' '') \<noteq> 1 \<longrightarrow>
        OrderBy order qb = qb\<lparr>Sort := Some [], Pipeline := Pipeline qb @ [[(''$sort'', BDoc [])]]\<rparr>)
   \<and> (\<exists>sort. Pipeline (OrderBy order qb) = Pipeline qb @ [[(''$sort'', BDoc sort)]])"
proof -
  have two: "OrderBy (field @ '' '' @ dir) qb
        = qb\<lparr>Sort := Some [(field, BInt (if ToUpper dir = ''DESC'' then - 1 else 1))],
             Pipeline := Pipeline qb
               @ [[(''$sort'', BDoc [(field, BInt (if ToUpper dir = ''DESC'' then - 1 else 1))])]]\<rparr>"
    if "CHR '' '' \<notin> set field" "CHR '' '' \<notin> set dir"
    using that by (simp add: OrderBy_def Split_two_tokens Let_def)
  have other: "OrderBy order qb
        = qb\<lparr>Sort := Some [], Pipeline := Pipeline qb @ [[(''$sort'', BDoc [])]]\<rparr>"
    if "count_list order (CHR '' '') \<noteq> 1"
    using that by (simp add: OrderBy_def length_Split_space Let_def)
  have stage: "\<exists>sort. Pipeline (OrderBy order qb) = Pipeline qb @ [[(''$sort'', BDoc sort)]]"
    by (simp add: OrderBy_def Let_def)
  from two other stage show ?thesis by blast
qed

theorem orderBy_direction_witness:
  "CHR '' '' \<notin> set ''price'' \<and> CHR '' '' \<notin> set ''desc'' \<and> isASCII ''desc''
   \<and> OrderBy ''price desc'' NewQueryBuilder
       = NewQueryBuilder\<lparr>Sort := Some [(''price'', BInt (- 1))],
           Pipeline := [[(''$sort'', BDoc [(''price'', BInt (- 1)) :: (string \<times> unit bson)])]]\<rparr>
   \<and> CHR '' '' \<notin> set ''price'' \<and> CHR '' '' \<notin> set ''up'' \<and> isASCII ''up''
   \<and> OrderBy ''price up'' NewQueryBuilder
       = NewQueryBuilder\<lparr>Sort := Some [(''price'', BInt 1)],
           Pipeline := [[(''$sort'', BDoc [(''price'', BInt 1) :: (string \<times> unit bson)])]]\<rparr>
   \<and> count_list ''price  DESC'' (CHR '' '') \<noteq> 1
   \<and> OrderBy ''price  DESC'' NewQueryBuilder
       = NewQueryBuilder\<lparr>Sort := Some [],
           Pipeline := [[(''$sort'', BDoc ([] :: (string \<times> unit bson) list))]]\<rparr>"
  using
    orderBy_direction
      [of "''price''" "''desc''" "NewQueryBuilder :: unit QueryBuilder" "''price  DESC''"]
    orderBy_direction
      [of "''price''" "''up''" "NewQueryBuilder :: unit QueryBuilder" "''price  DESC''"]
  by (simp add: NewQueryBuilder_def isASCII_def string_evals)

text \<open>
  The claim as written fails on an argument without a direction: it is one token, and
  the sort stage is the empty document, with no ascending direction in it.
\<close>

theorem orderBy_malformed_counterexample:
  "length (Split ''price'' '' '') \<noteq> 2
   \<and> Sort (OrderBy ''price'' (NewQueryBuilder :: unit QueryBuilder)) = Some []
   \<and> Pipeline (OrderBy ''price'' (NewQueryBuilder :: unit QueryBuilder)) = [[(''$sort'', BDoc [])]]"
  by (simp add: OrderBy_def NewQueryBuilder_def string_evals)

section \<open>The alias resolver\<close>

text \<open>Without the separator in any letter case the alias of an ASCII spec is the spec itself.\<close>

lemma parseAlias_no_separator:
  "isASCII field \<Longrightarrow> \<not> Contains (ToUpper field) '' AS '' \<Longrightarrow> parseAlias field = Inr field"
  by (simp add: parseAlias_def)

text \<open>With the separator in upper case the alias is the trimmed text after its first occurrence.\<close>

lemma parseAlias_upper_separator:
  assumes "isASCII field" and "Index field '' AS '' = Some i"
  shows "parseAlias field = Inr (TrimSpace (drop (i + length '' AS '') field))"
proof -
  have "Index field '' AS '' \<noteq> None"
    using assms(2) by simp
  then have "Index (map toUpperChar field) (map toUpperChar '' AS '') \<noteq> None"
    by (rule Index_map)
  then have "Contains (ToUpper field) '' AS ''"
    by (simp add: Contains_def ToUpper_def toUpperChar_def lowerLetters_def upperLetters_def)
  then show ?thesis
    using assms(2) by (simp add: parseAlias_def SplitN2_def)
qed

lemma parseAlias_upper_example: "parseAlias ''SUM(amount) AS total'' = Inr ''total''"
  by (simp add: parseAlias_def string_evals)

text \<open>
  C7. The separator is looked for in the upper-cased spec, but the spec is split on
  the upper-case separator in its original spelling. With a lower-case \<open>as\<close> the
  separator is found, the split gives one part, and reading \<open>parts[1]\<close> panics:
  the resolver fails, and so does \<open>NestedGroupBy\<close>, which calls it on every
  aggregation spec.
\<close>

theorem parseAlias_lowercase_panics:
  "Contains (ToUpper ''SUM(amount) as total'') '' AS ''
   \<and> SplitN2 ''SUM(amount) as total'' '' AS '' = [''SUM(amount) as total'']
   \<and> parseAlias ''SUM(amount) as total'' = Inl IndexOutOfRange
   \<and> NestedGroupBy ''region'' [''SUM(amount) as total''] qb = Inl IndexOutOfRange"
  by (simp add: NestedGroupBy_def parseAlias_def string_evals)

section \<open>The operator mapper\<close>

text \<open>
  C8, as amended. \<open>mapOperatorToMongo\<close> returns a non-empty tag for each of the six
  comparison tokens and also for each of the four arithmetic tokens \<open>+\<close>, \<open>-\<close>,
  \<open>*\<close>, \<open>/\<close>; for every token outside these ten it returns the empty string.
\<close>

theorem operator_mapper_total:
  "(t \<in> {''='', ''!='', ''<'', ''>'', ''<='', ''>=''} \<longrightarrow> mapOperatorToMongo t \<noteq> [])
   \<and> (t \<in> {''+'', ''-'', ''*'', ''/''} \<longrightarrow> mapOperatorToMongo t \<noteq> [])
   \<and> (t \<notin> {''='', ''!='', ''<'', ''>'', ''<='', ''>='', ''+'', ''-'', ''*'', ''/''}
        \<longrightarrow> mapOperatorToMongo t = [])"
  by (auto simp: mapOperatorToMongo_def)

theorem operator_mapper_total_witness:
  "''<='' \<in> {''='', ''!='', ''<'', ''>'', ''<='', ''>=''} \<and> mapOperatorToMongo ''<='' \<noteq> []
   \<and> ''*'' \<in> {''+'', ''-'', ''*'', ''/''} \<and> mapOperatorToMongo ''*'' \<noteq> []
   \<and> ''LIKE'' \<notin> {''='', ''!='', ''<'', ''>'', ''<='', ''>='', ''+'', ''-'', ''*'', ''/''}
   \<and> mapOperatorToMongo ''LIKE'' = []"
  using operator_mapper_total [of "''<=''"] operator_mapper_total [of "''*''"]
    operator_mapper_total [of "''LIKE''"]
  by simp

text \<open>
  The claim as written fails: \<open>+\<close> is not one of the six comparison tokens, and the
  mapper returns the tag \<open>$add\<close> for it.
\<close>

theorem operator_mapper_arithmetic_counterexample:
  "''+'' \<notin> {''='', ''!='', ''<'', ''>'', ''<='', ''>=''} \<and> mapOperatorToMongo ''+'' = ''$add''"
  by (simp add: mapOperatorToMongo_def)

section \<open>The LIMIT clause\<close>

text \<open>What \<open>strconv.ParseInt\<close> accepts, without reference to how it reads the string.\<close>

lemma ParseInt_Some_iff:
  "ParseInt c = Some n \<longleftrightarrow>
     (\<exists>ds. ds \<noteq> [] \<and> list_all isDigit ds
        \<and> ((c = ds \<or> c = CHR ''+'' # ds) \<and> decimalValue ds < 2 ^ 63 \<and> n = decimalValue ds
           \<or> c = CHR ''-'' # ds \<and> decimalValue ds \<le> 2 ^ 63 \<and> n = - decimalValue ds))"
proof (cases c)
  case Nil
  then show ?thesis by (simp add: ParseInt_def)
next
  case (Cons x xs)
  have nosign: "x \<noteq> CHR ''+'' \<and> x \<noteq> CHR ''-''" if "isDigit x"
    using that by (auto simp: isDigit_def digitChars_def)
  show ?thesis
  proof (cases "x = CHR ''+'' \<or> x = CHR ''-''")
    case True
    then have nd: "\<not> isDigit x" using nosign by blast
    from True Cons nd show ?thesis
      by (auto simp: ParseInt_def Let_def)
  next
    case False
    with Cons show ?thesis
      by (auto simp: ParseInt_def Let_def)
  qed
qed

lemma ParseSQL_limit_step:
  assumes "isASCII q"
    and "parseBeforeLimit pf q = Inr (qb, rest)" and "Contains (ToUpper rest) ''LIMIT''"
  shows "ParseSQL pf q =
     (case ParseInt (TrimSpace (fst (extractClause ''LIMIT'' rest))) of
        None \<Rightarrow> Inl InvalidLimitValue
      | Some n \<Rightarrow> Inr (qb\<lparr>LimitVal := n\<rparr>))"
  using assms
  by (simp add: ParseSQL_def parseLimit_def Limit_def split: prod.splits option.splits)

lemma parseBeforeLimit_negative:
  "parseBeforeLimit wordsOnly ''SELECT a FROM t LIMIT -5''
     = Inr (NewQueryBuilder\<lparr>Fields := [''a''], Collection := ''t''\<rparr>, ''LIMIT -5'')"
  by (simp add: parser_evals OrderBy_def Having_def Match_def GroupBy_def string_evals)

lemma parseBeforeLimit_word:
  "parseBeforeLimit wordsOnly ''SELECT a FROM t LIMIT ten''
     = Inr (NewQueryBuilder\<lparr>Fields := [''a''], Collection := ''t''\<rparr>, ''LIMIT ten'')"
  by (simp add: parser_evals OrderBy_def Having_def Match_def GroupBy_def string_evals)

text \<open>
  A statement with nothing after the collection name never reaches the LIMIT clause:
  \<open>extractCollection\<close> reads \<open>parts[1]\<close> of a one-element split.
\<close>

lemma ParseSQL_no_clause_panics:
  "ParseSQL wordsOnly ''SELECT a FROM t'' = Inl IndexOutOfRange"
  by (simp add: ParseSQL_def parser_evals string_evals)

text \<open>
  Every ASCII statement of the plain shape \<open>SELECT fields FROM collection LIMIT value\<close>
  reaches the LIMIT clause with the value as the clause text: the keywords in any
  letter case, single spaces between the parts, no space in the field list and in the
  collection, and a value that is one token without \<open>WHERE\<close>, \<open>HAVING\<close> or
  \<open>LIMIT\<close> in it.
\<close>

lemma ParseSQL_select_from_limit:
  assumes ascii: "isASCII (kS @ fs @ kF @ t @ kL @ v)"
    and kS: "ToUpper kS = ''SELECT''" and kF: "ToUpper kF = ''FROM''"
    and kL: "ToUpper kL = ''LIMIT''"
    and fs: "CHR '' '' \<notin> set fs" and t: "CHR '' '' \<notin> set t"
    and v: "v \<noteq> []" "list_all (\<lambda>c. \<not> isSpace c) v"
    and nokw: "\<not> Contains (ToUpper v) ''WHERE''" "\<not> Contains (ToUpper v) ''HAVING''"
      "\<not> Contains (ToUpper v) ''LIMIT''"
  shows "ParseSQL pf (kS @ '' '' @ fs @ '' '' @ kF @ '' '' @ t @ '' '' @ kL @ '' '' @ v)
     = (case ParseInt v of
          None \<Rightarrow> Inl InvalidLimitValue
        | Some n \<Rightarrow>
            Inr (NewQueryBuilder\<lparr>Fields := map TrimSpace (Split fs '',''), Collection := t,
                   LimitVal := n\<rparr>))"
proof -
  define w where "w = kL @ CHR '' '' # v"
  define r where "r = fs @ CHR '' '' # kF @ CHR '' '' # t @ CHR '' '' # w"
  define q where "q = kS @ CHR '' '' # r"
  define u where "u = ToUpper v"
  have lens: "length kS = 6" "length kF = 4" "length kL = 5"
    using kS kF kL by (auto simp: ToUpper_def dest: arg_cong [where f = length])
  have kS_ns: "list_all (\<lambda>c. \<not> isSpace c) kS"
    using kS ToUpper_no_space [of kS] by (simp add: isSpace_def)
  then have kS_sp: "CHR '' '' \<notin> set kS"
    by (auto simp: list_all_iff isSpace_def)
  have kS_ne: "kS \<noteq> []" using lens by auto
  have u_sp: "CHR '' '' \<notin> set u"
    using v(2) ToUpper_no_space [of v] by (auto simp: u_def list_all_iff isSpace_def)
  have vends: "\<not> isSpace (hd v) \<and> \<not> isSpace (last v)"
    using v by (rule no_space_ends)
  \<comment> \<open>the statement is trimmed already\<close>
  have "\<not> isSpace (hd q) \<and> \<not> isSpace (last q) \<and> q \<noteq> []"
    using kS_ne kS_ns v vends by (cases kS) (auto simp: q_def r_def w_def)
  then have trim: "TrimSpace q = q"
    by (simp add: TrimSpace_id)
  \<comment> \<open>SELECT and the field list\<close>
  have split: "Split q '' '' = kS # splitFrom '' '' [] r"
    using kS_sp by (simp add: Split_def q_def splitFrom_first_separator)
  have join: "Join (splitFrom '' '' [] r) '' '' = r"
    by (simp add: Join_splitFrom)
  have upr: "ToUpper r = ToUpper fs @ CHR '' '' # (''FROM'' @ CHR '' '' # ToUpper t @ CHR '' '' # ToUpper w)"
    using kF by (simp add: r_def ToUpper_append ToUpper_space)
  have from_at: "Index (ToUpper r) '' FROM '' = Some (length fs)"
  proof -
    have "Index (ToUpper fs @ CHR '' '' # (''FROM'' @ CHR '' '' # ToUpper t @ CHR '' '' # ToUpper w))
        (CHR '' '' # ''FROM '') = Some (length (ToUpper fs))"
      by (rule Index_first) (simp_all add: ToUpper_space_free fs)
    moreover have "length (ToUpper fs) = length fs"
      by (simp add: ToUpper_def)
    ultimately show ?thesis
      unfolding upr by simp
  qed
  have fields: "extractFields (Split q '' '')
      = Inr (map TrimSpace (Split fs '',''), t @ CHR '' '' # w)"
    using kS from_at lens by (simp add: extractFields_def split join) (simp add: r_def)
  \<comment> \<open>the collection\<close>
  have "Index (t @ CHR '' '' # w) (CHR '' '' # []) = Some (length t)"
    by (rule Index_first) (simp_all add: t)
  then have coll: "extractCollection (t @ CHR '' '' # w) = Inr (t, w)"
    by (simp add: extractCollection_def SplitN2_def)
  \<comment> \<open>no other clause keyword in what is left\<close>
  have upw: "ToUpper w = ''LIMIT'' @ CHR '' '' # u"
    using kL by (simp add: w_def u_def ToUpper_append ToUpper_space)
  have u_word: "Index u ''WHERE'' = None" "Index u ''HAVING'' = None" "Index u ''LIMIT'' = None"
    using nokw by (simp_all add: Contains_def u_def)
  have u_two: "Index u ''GROUP BY'' = None" "Index u ''ORDER BY'' = None"
    by (rule Index_no_char [of "CHR '' ''"], simp, rule u_sp)+
  note u_none = u_word u_two
  have w_none: "\<not> Contains (ToUpper w) ''WHERE''" "\<not> Contains (ToUpper w) ''GROUP BY''"
    "\<not> Contains (ToUpper w) ''HAVING''" "\<not> Contains (ToUpper w) ''ORDER BY''"
    using u_none by (simp_all add: Contains_def upw)
  have before: "parseBeforeLimit pf q
      = Inr (NewQueryBuilder\<lparr>Fields := map TrimSpace (Split fs '',''), Collection := t\<rparr>, w)"
    using w_none by (simp add: parseBeforeLimit_def trim fields coll parseClause_def)
  \<comment> \<open>the LIMIT clause\<close>
  have limit_in: "Contains (ToUpper w) ''LIMIT''" "Index (ToUpper w) ''LIMIT'' = Some 0"
    by (simp_all add: Contains_def upw)
  have next_none: "findNextKeyword (CHR '' '' # v) = None"
    using u_none by (simp add: findNextKeyword_def ToUpper_space u_def)
  have "TrimSpace (CHR '' '' # v) = TrimSpace v"
    by (simp add: TrimSpace_def isSpace_def)
  also have "\<dots> = v"
    using v vends by (simp add: TrimSpace_id)
  finally have trimv: "TrimSpace (CHR '' '' # v) = v" .
  have clause: "extractClause ''LIMIT'' w = (v, [])"
    using limit_in lens by (simp add: extractClause_def) (simp add: w_def next_none trimv)
  have tv: "TrimSpace v = v"
    using v vends by (simp add: TrimSpace_id)
  have "ParseSQL pf q
     = (case ParseInt v of
          None \<Rightarrow> Inl InvalidLimitValue
        | Some n \<Rightarrow>
            Inr (NewQueryBuilder\<lparr>Fields := map TrimSpace (Split fs '',''), Collection := t,
                   LimitVal := n\<rparr>))"
    using limit_in
    by (simp add: ParseSQL_def before clause tv parseLimit_def Limit_def split: option.splits)
  then show ?thesis
    by (simp add: q_def r_def w_def)
qed

text \<open>
  C9, as amended. Take an ASCII statement whose parse reaches the check for the LIMIT
  keyword without a panic and with \<open>LIMIT\<close> still in the text \<open>rest\<close> that the
  earlier clauses have left over, and let \<open>c\<close> be the trimmed text of the clause
  as \<open>extractClause\<close> cuts it (from after the first \<open>LIMIT\<close> in \<open>rest\<close> up to
  the keyword that \<open>findNextKeyword\<close> reports, or to the end). If \<open>c\<close> is a signed decimal integer of 64 bits, that is one or more
  digits, after an optional \<open>+\<close> with a value below \<open>2^63\<close> or after a \<open>-\<close>
  with a value of at most \<open>2^63\<close>, then the parse returns the builder with that
  value, negative values included, as its deferred limit. For every other \<open>c\<close> the
  parse of the whole statement stops with the error of an invalid LIMIT value and
  returns no builder.
\<close>

theorem limit_clause_signed_integer:
  assumes "isASCII q"
    and "parseBeforeLimit pf q = Inr (qb, rest)" and "Contains (ToUpper rest) ''LIMIT''"
    and "c = TrimSpace (fst (extractClause ''LIMIT'' rest))"
  shows "(\<forall>ds. ds \<noteq> [] \<and> list_all isDigit ds \<and> decimalValue ds < 2 ^ 63
              \<and> (c = ds \<or> c = CHR ''+'' # ds)
            \<longrightarrow> ParseSQL pf q = Inr (qb\<lparr>LimitVal := decimalValue ds\<rparr>))
    \<and> (\<forall>ds. ds \<noteq> [] \<and> list_all isDigit ds \<and> decimalValue ds \<le> 2 ^ 63 \<and> c = CHR ''-'' # ds
            \<longrightarrow> ParseSQL pf q = Inr (qb\<lparr>LimitVal := - decimalValue ds\<rparr>))
    \<and> ((\<nexists>ds. ds \<noteq> [] \<and> list_all isDigit ds
              \<and> ((c = ds \<or> c = CHR ''+'' # ds) \<and> decimalValue ds < 2 ^ 63
                 \<or> c = CHR ''-'' # ds \<and> decimalValue ds \<le> 2 ^ 63))
            \<longrightarrow> ParseSQL pf q = Inl InvalidLimitValue)"
proof -
  have step: "ParseSQL pf q =
     (case ParseInt c of None \<Rightarrow> Inl InvalidLimitValue | Some n \<Rightarrow> Inr (qb\<lparr>LimitVal := n\<rparr>))"
    using assms by (simp add: ParseSQL_limit_step)
  have plain: "ParseSQL pf q = Inr (qb\<lparr>LimitVal := decimalValue ds\<rparr>)"
    if "ds \<noteq> []" "list_all isDigit ds" "decimalValue ds < 2 ^ 63" "c = ds \<or> c = CHR ''+'' # ds"
    for ds
  proof -
    have "ParseInt c = Some (decimalValue ds)"
      unfolding ParseInt_Some_iff using that by blast
    then show ?thesis by (simp add: step)
  qed
  have minus: "ParseSQL pf q = Inr (qb\<lparr>LimitVal := - decimalValue ds\<rparr>)"
    if "ds \<noteq> []" "list_all isDigit ds" "decimalValue ds \<le> 2 ^ 63" "c = CHR ''-'' # ds"
    for ds
  proof -
    have "ParseInt c = Some (- decimalValue ds)"
      unfolding ParseInt_Some_iff using that by blast
    then show ?thesis by (simp add: step)
  qed
  have bad: "ParseSQL pf q = Inl InvalidLimitValue"
    if "\<nexists>ds. ds \<noteq> [] \<and> list_all isDigit ds
              \<and> ((c = ds \<or> c = CHR ''+'' # ds) \<and> decimalValue ds < 2 ^ 63
                 \<or> c = CHR ''-'' # ds \<and> decimalValue ds \<le> 2 ^ 63)"
  proof -
    have "ParseInt c = None"
    proof (cases "ParseInt c")
      case None
      then show ?thesis .
    next
      case (Some n)
      then show ?thesis
        unfolding ParseInt_Some_iff using that by blast
    qed
    then show ?thesis by (simp add: step)
  qed
  from plain minus bad show ?thesis by blast
qed

theorem limit_clause_signed_integer_witness:
  "isASCII ''SELECT a FROM t LIMIT -5''
   \<and> parseBeforeLimit wordsOnly ''SELECT a FROM t LIMIT -5''
     = Inr (NewQueryBuilder\<lparr>Fields := [''a''], Collection := ''t''\<rparr>, ''LIMIT -5'')
   \<and> Contains (ToUpper ''LIMIT -5'') ''LIMIT''
   \<and> ''-5'' = TrimSpace (fst (extractClause ''LIMIT'' ''LIMIT -5''))
   \<and> list_all isDigit ''5'' \<and> decimalValue ''5'' \<le> 2 ^ 63
   \<and> ParseSQL wordsOnly ''SELECT a FROM t LIMIT -5''
       = Inr (NewQueryBuilder\<lparr>Fields := [''a''], Collection := ''t'', LimitVal := - 5\<rparr>)
   \<and> isASCII ''SELECT a FROM t LIMIT ten''
   \<and> parseBeforeLimit wordsOnly ''SELECT a FROM t LIMIT ten''
     = Inr (NewQueryBuilder\<lparr>Fields := [''a''], Collection := ''t''\<rparr>, ''LIMIT ten'')
   \<and> Contains (ToUpper ''LIMIT ten'') ''LIMIT''
   \<and> ''ten'' = TrimSpace (fst (extractClause ''LIMIT'' ''LIMIT ten''))
   \<and> ParseSQL wordsOnly ''SELECT a FROM t LIMIT ten'' = Inl InvalidLimitValue"
proof -
  have a1: "isASCII ''SELECT a FROM t LIMIT -5''"
    and a2: "isASCII ''SELECT a FROM t LIMIT ten''"
    by (simp_all add: isASCII_def)
  have c1: "Contains (ToUpper ''LIMIT -5'') ''LIMIT''"
    and c2: "Contains (ToUpper ''LIMIT ten'') ''LIMIT''"
    by (simp_all add: string_evals)
  have t1: "''-5'' = TrimSpace (fst (extractClause ''LIMIT'' ''LIMIT -5''))"
    and t2: "''ten'' = TrimSpace (fst (extractClause ''LIMIT'' ''LIMIT ten''))"
    by (simp_all add: extractClause_def findNextKeyword_def string_evals)
  have d: "list_all isDigit ''5'' \<and> decimalValue ''5'' = 5"
    by (simp add: string_evals)
  have nd: "\<nexists>ds. ds \<noteq> [] \<and> list_all isDigit ds
              \<and> ((''ten'' = ds \<or> ''ten'' = CHR ''+'' # ds) \<and> decimalValue ds < 2 ^ 63
                 \<or> ''ten'' = CHR ''-'' # ds \<and> decimalValue ds \<le> 2 ^ 63)"
    by (auto simp: isDigit_def digitChars_def)
  from limit_clause_signed_integer [OF a1 parseBeforeLimit_negative c1 t1] d
  have r1: "ParseSQL wordsOnly ''SELECT a FROM t LIMIT -5''
       = Inr (NewQueryBuilder\<lparr>Fields := [''a''], Collection := ''t'', LimitVal := - 5\<rparr>)"
    by simp
  from limit_clause_signed_integer [OF a2 parseBeforeLimit_word c2 t2] nd
  have r2: "ParseSQL wordsOnly ''SELECT a FROM t LIMIT ten'' = Inl InvalidLimitValue"
    by blast
  from a1 a2 parseBeforeLimit_negative parseBeforeLimit_word c1 c2 t1 t2 d r1 r2
  show ?thesis by simp
qed

text \<open>
  The claim as written fails in both of its parts. The LIMIT value \<open>-5\<close> is parsed,
  and the builder comes back with the negative deferred limit. The LIMIT value
  \<open>where\<close> is not numeric, and yet the parse does not stop: the WHERE clause is
  looked for first and found in the value, its extraction leaves nothing over, and the
  builder comes back with an empty \<open>$match\<close> stage and no limit.
\<close>

theorem limit_clause_counterexample:
  "ParseSQL wordsOnly ''SELECT a FROM t LIMIT -5''
     = Inr \<lparr>Collection = ''t'', Fields = [''a''], Group = None, Sort = None, HavingCond = None,
            LimitVal = - 5, OffsetVal = 0, Pipeline = []\<rparr>
   \<and> ParseSQL wordsOnly ''SELECT a FROM t LIMIT where''
     = Inr \<lparr>Collection = ''t'', Fields = [''a''], Group = None, Sort = None, HavingCond = None,
            LimitVal = 0, OffsetVal = 0, Pipeline = [[(''$match'', BDoc [])]]\<rparr>"
  by (simp add: ParseSQL_def parser_evals Limit_def OrderBy_def Having_def Match_def GroupBy_def
      parseExpression_def parseConditions_def parseCondition_def regexp_evals string_evals)

section \<open>AggregationLimit and AggregationOffset\<close>

text \<open>
  C10, as amended. For \<open>n > 0\<close>, \<open>AggregationLimit n\<close> appends a \<open>$limit n\<close>
  stage at once and also records \<open>n\<close> as the deferred limit, so the pipeline
  compiled by \<open>Execute\<close> ends with a second \<open>$limit n\<close> stage.
  \<open>AggregationOffset n\<close> appends a \<open>$skip n\<close> stage at once and leaves the deferred
  offset and limit as they were: \<open>Execute\<close> then appends just the stages it would
  have appended without that call, which is a second \<open>$skip\<close> stage, of the deferred
  offset, when a positive deferred offset was set before, and no \<open>$skip\<close> stage when
  none was. With a collection set, the builder \<open>Execute\<close> leaves is the compiled one.
\<close>

theorem aggregation_limit_offset_frame:
  assumes "0 < n"
  shows "LimitVal (AggregationLimit n qb) = n
    \<and> Pipeline (AggregationLimit n qb) = Pipeline qb @ [[(''$limit'', BInt n)]]
    \<and> Pipeline (compilePipeline (AggregationLimit n qb))
        = Pipeline qb @ [[(''$limit'', BInt n)]]
          @ (if 0 < OffsetVal qb then [[(''$skip'', BInt (OffsetVal qb))]] else [])
          @ [[(''$limit'', BInt n)]]
    \<and> OffsetVal (AggregationOffset n qb) = OffsetVal qb
    \<and> LimitVal (AggregationOffset n qb) = LimitVal qb
    \<and> Pipeline (AggregationOffset n qb) = Pipeline qb @ [[(''$skip'', BInt n)]]
    \<and> Pipeline (compilePipeline (AggregationOffset n qb))
        = Pipeline qb @ [[(''$skip'', BInt n)]]
          @ (if 0 < OffsetVal qb then [[(''$skip'', BInt (OffsetVal qb))]] else [])
          @ (if 0 < LimitVal qb then [[(''$limit'', BInt (LimitVal qb))]] else [])
    \<and> (OffsetVal qb \<le> 0 \<longrightarrow>
         Pipeline (compilePipeline (AggregationOffset n qb))
          = Pipeline qb @ [[(''$skip'', BInt n)]]
            @ (if 0 < LimitVal qb then [[(''$limit'', BInt (LimitVal qb))]] else []))
    \<and> (Collection qb \<noteq> [] \<longrightarrow>
         snd (Execute aggregate (AggregationLimit n qb)) = compilePipeline (AggregationLimit n qb)
       \<and> snd (Execute aggregate (AggregationOffset n qb))
          = compilePipeline (AggregationOffset n qb))"
  using assms
  by (simp add: AggregationLimit_def AggregationOffset_def Execute_def compilePipeline_def Let_def)

theorem aggregation_limit_offset_frame_witness:
  "(0::int) < 5 \<and> Collection (From ''orders'' NewQueryBuilder) \<noteq> []
   \<and> OffsetVal (From ''orders'' (NewQueryBuilder :: unit QueryBuilder)) \<le> 0
   \<and> Pipeline (snd (Execute returnPipeline (AggregationLimit 5 (From ''orders'' NewQueryBuilder))))
      = [[(''$limit'', BInt 5)], [(''$limit'', BInt 5)]]
   \<and> Pipeline (snd (Execute returnPipeline (AggregationOffset 5 (From ''orders'' NewQueryBuilder))))
      = [[(''$skip'', BInt 5)]]"
  using aggregation_limit_offset_frame [of 5 "From ''orders'' NewQueryBuilder" returnPipeline]
  by (simp add: From_def NewQueryBuilder_def returnPipeline_def AggregationLimit_def
      AggregationOffset_def)

text \<open>
  The claim as written fails on a builder whose deferred offset is set: after
  \<open>Offset 7\<close>, \<open>AggregationOffset 5\<close> appends \<open>$skip 5\<close> and the finalization
  appends a second \<open>$skip\<close> stage, for the deferred 7.
\<close>

theorem aggregation_offset_second_skip_counterexample:
  "(0::int) < 5
   \<and> Pipeline (snd (Execute returnPipeline
        (AggregationOffset 5 (Offset 7 (From ''orders'' NewQueryBuilder)))))
      = [[(''$skip'', BInt 5)], [(''$skip'', BInt 7)]]"
  by (simp add: Execute_def compilePipeline_def AggregationOffset_def Offset_def From_def
      NewQueryBuilder_def)

end
